theory Spec2Isabelle
  imports Main "HOL-Library.Sublist" "HOL-Library.Word"
begin

section \<open>Strings as the program reads them\<close>

text \<open>
  A JavaScript string is modelled as a \<^typ>\<open>string\<close>, one \<^typ>\<open>char\<close> per code unit
  below 256. The functions of this section are the string methods the command-line
  client calls: \<open>startsWith\<close>, \<open>endsWith\<close>, \<open>trim\<close>, \<open>indexOf\<close>, \<open>split\<close>,
  \<open>slice\<close> and the two-string form of \<open>replace\<close>.
\<close>

definition startsWith :: "string \<Rightarrow> string \<Rightarrow> bool" where
  "startsWith s p = (take (length p) s = p)"

definition endsWith :: "string \<Rightarrow> string \<Rightarrow> bool" where
  "endsWith s p = (length p \<le> length s \<and> drop (length s - length p) s = p)"

text \<open>
  White space of \<open>trim\<close> and of the regular-expression class \<open>\s\<close>, among the code
  units below 256: tab, line feed, vertical tab, form feed, carriage return, space and
  the no-break space.
\<close>

definition isSpace :: "char \<Rightarrow> bool" where
  "isSpace c = (c \<in> set [CHR 0x09, CHR 0x0A, CHR 0x0B, CHR 0x0C, CHR 0x0D, CHR 0x20, CHR 0xA0])"

definition trim :: "string \<Rightarrow> string" where
  "trim s = rev (dropWhile isSpace (rev (dropWhile isSpace s)))"

definition isQuote :: "char \<Rightarrow> bool" where
  "isQuote c = (c = CHR 0x22 \<or> c = CHR 0x27)"

text \<open>
  \<open>splitAtFirst pat s\<close> finds the leftmost occurrence of \<open>pat\<close> in \<open>s\<close>, as
  \<open>indexOf\<close> does, and returns what stands before it and what stands after it.
\<close>

fun splitAtFirst :: "string \<Rightarrow> string \<Rightarrow> (string \<times> string) option" where
  "splitAtFirst pat [] = (if pat = [] then Some ([], []) else None)"
| "splitAtFirst pat (c # cs) =
     (if startsWith (c # cs) pat then Some ([], drop (length pat) (c # cs))
      else (case splitAtFirst pat cs of
              None \<Rightarrow> None
            | Some (b, a) \<Rightarrow> Some (c # b, a)))"

text \<open>\<open>s.split(d)\<close> for a separator of one character.\<close>

fun splitOn :: "char \<Rightarrow> string \<Rightarrow> string list" where
  "splitOn d [] = [[]]"
| "splitOn d (c # cs) =
     (if c = d then [] # splitOn d cs
      else (case splitOn d cs of
              [] \<Rightarrow> [[c]]
            | x # xs \<Rightarrow> (c # x) # xs))"

text \<open>
  The replacement text of \<open>s.replace(pattern, replacement)\<close> is a template: \<open>$$\<close>
  stands for a dollar sign, \<open>$&\<close> for the matched text, a dollar sign with a backquote
  for the text before the match and a dollar sign with an apostrophe for the text after it. With a string pattern there are no capture
  groups, so every other \<open>$\<close> stands for itself.
\<close>

fun getSubstitution :: "string \<Rightarrow> string \<Rightarrow> string \<Rightarrow> string \<Rightarrow> string" where
  "getSubstitution matched pre post [] = []"
| "getSubstitution matched pre post [c] = [c]"
| "getSubstitution matched pre post (c # d # t) =
     (if c = CHR ''$'' \<and> d = CHR ''$'' then CHR ''$'' # getSubstitution matched pre post t
      else if c = CHR ''$'' \<and> d = CHR ''&'' then matched @ getSubstitution matched pre post t
      else if c = CHR ''$'' \<and> d = CHR 0x60 then pre @ getSubstitution matched pre post t
      else if c = CHR ''$'' \<and> d = CHR 0x27 then post @ getSubstitution matched pre post t
      else c # getSubstitution matched pre post (d # t))"

text \<open>\<open>s.replace(pat, repl)\<close> with a string pattern: the first occurrence only.\<close>

definition replaceFirst :: "string \<Rightarrow> string \<Rightarrow> string \<Rightarrow> string" where
  "replaceFirst s pat repl =
     (case splitAtFirst pat s of
        None \<Rightarrow> s
      | Some (b, a) \<Rightarrow> b @ getSubstitution pat b a repl @ a)"

section \<open>Locating image references (utils.ts)\<close>

record ImageReference =
  original :: string
  path :: string

definition isLocalPath :: "string \<Rightarrow> bool" where
  "isLocalPath v = (\<not> startsWith v ''http://'' \<and> \<not> startsWith v ''https://'')"

text \<open>
  The markdown pattern \<^verbatim>\<open>/!\[[^\]]*\]\(([^)\s]+)(?:\s+"[^"]*")?\)/\<close> tried at the head of a
  string. Every repetition in it is a greedy run of a character class that is followed
  by a character outside that class, so the run always extends as far as the class
  allows and no shorter run can lead to a match: the matcher never has to backtrack.
  The result is the matched text and the first group.
\<close>

definition markdownImageAt :: "string \<Rightarrow> (string \<times> string) option" where
  "markdownImageAt s =
     (if \<not> startsWith s ''!['' then None
      else
        let alt = takeWhile (\<lambda>c. c \<noteq> CHR '']'') (drop 2 s);
            r1 = dropWhile (\<lambda>c. c \<noteq> CHR '']'') (drop 2 s)
        in if \<not> startsWith r1 '']('' then None
           else
             let p = takeWhile (\<lambda>c. c \<noteq> CHR '')'' \<and> \<not> isSpace c) (drop 2 r1);
                 r2 = dropWhile (\<lambda>c. c \<noteq> CHR '')'' \<and> \<not> isSpace c) (drop 2 r1)
             in if p = [] then None
                else if startsWith r2 '')'' then Some (''!['' @ alt @ '']('' @ p @ '')'', p)
                else
                  let ws = takeWhile isSpace r2;
                      r3 = dropWhile isSpace r2
                  in if ws = [] \<or> \<not> startsWith r3 [CHR 0x22] then None
                     else
                       let t = takeWhile (\<lambda>c. c \<noteq> CHR 0x22) (drop 1 r3);
                           r4 = dropWhile (\<lambda>c. c \<noteq> CHR 0x22) (drop 1 r3)
                       in if take 2 r4 = [CHR 0x22, CHR '')'']
                          then Some (''!['' @ alt @ '']('' @ p @ ws @ [CHR 0x22] @ t @ [CHR 0x22, CHR '')''], p)
                          else None)"

text \<open>
  The pattern \<^verbatim>\<open>/<img[^>]+src=["']([^"']+)["'][^>]*\/?>/i\<close>. The letters match in
  either case. \<open>srcTail\<close> is the part from \<open>src=\<close> on, which is again free of
  backtracking; it returns the number of characters it matched and the first group.
\<close>

definition lowerAscii :: "char \<Rightarrow> char" where
  "lowerAscii c =
     (let n = (of_char c :: nat)
      in if 65 \<le> n \<and> n \<le> 90 then char_of (n + 32) else c)"

definition startsWithCI :: "string \<Rightarrow> string \<Rightarrow> bool" where
  "startsWithCI s p = (map lowerAscii (take (length p) s) = p)"

definition srcTail :: "string \<Rightarrow> (nat \<times> string) option" where
  "srcTail t =
     (if \<not> startsWithCI t ''src='' then None
      else
        (case drop 4 t of
           [] \<Rightarrow> None
         | q # r1 \<Rightarrow>
             if \<not> isQuote q then None
             else
               let p = takeWhile (\<lambda>c. \<not> isQuote c) r1;
                   r2 = dropWhile (\<lambda>c. \<not> isQuote c) r1
               in if p = [] \<or> r2 = [] then None
                  else
                    let rest = takeWhile (\<lambda>c. c \<noteq> CHR ''>'') (drop 1 r2);
                        r3 = dropWhile (\<lambda>c. c \<noteq> CHR ''>'') (drop 1 r2)
                    in if r3 = [] then None
                       else Some (4 + 1 + length p + 1 + length rest + 1, p)))"

text \<open>
  \<open>[^>]+\<close> before \<open>src=\<close> is greedy and does backtrack: of all the places in the run
  of characters other than \<open>>\<close> where the rest of the pattern matches, the last one
  wins. \<open>imgAttrs k t\<close> has consumed \<open>k\<close> characters of that run and stands before
  \<open>t\<close>; it tries the longer runs first.
\<close>

fun imgAttrs :: "nat \<Rightarrow> string \<Rightarrow> (nat \<times> string) option" where
  "imgAttrs k [] = None"
| "imgAttrs k (c # cs) =
     (if c = CHR ''>'' then None
      else (case imgAttrs (Suc k) cs of
              Some m \<Rightarrow> Some m
            | None \<Rightarrow>
                (case srcTail cs of
                   None \<Rightarrow> None
                 | Some (n, p) \<Rightarrow> Some (Suc k + n, p))))"

definition htmlImageAt :: "string \<Rightarrow> (string \<times> string) option" where
  "htmlImageAt s =
     (if \<not> startsWithCI s ''<img'' then None
      else (case imgAttrs 0 (drop 4 s) of
              None \<Rightarrow> None
            | Some (n, p) \<Rightarrow> Some (take (4 + n) s, p)))"

text \<open>
  The loop \<^verbatim>\<open>while ((match = regex.exec(content)) !== null)\<close> of a pattern with the
  \<open>g\<close> flag: the next search starts where the last match ended. \<open>execAll m k s\<close>
  still has \<open>k\<close> characters of the last match to step over.
\<close>

fun execAll :: "(string \<Rightarrow> (string \<times> string) option) \<Rightarrow> nat \<Rightarrow> string \<Rightarrow> (string \<times> string) list" where
  "execAll m k [] = []"
| "execAll m (Suc k) (c # cs) = execAll m k cs"
| "execAll m 0 (c # cs) =
     (case m (c # cs) of
        None \<Rightarrow> execAll m 0 cs
      | Some (orig, p) \<Rightarrow> (orig, p) # execAll m (length orig - 1) cs)"

text \<open>The body of each loop: \<^verbatim>\<open>if (path && isLocalPath(path)) images.push(...)\<close>.\<close>

fun pushLocal :: "ImageReference list \<Rightarrow> (string \<times> string) list \<Rightarrow> ImageReference list" where
  "pushLocal images [] = images"
| "pushLocal images ((orig, p) # ms) =
     (if p \<noteq> [] \<and> isLocalPath p
      then pushLocal (images @ [\<lparr>original = orig, path = p\<rparr>]) ms
      else pushLocal images ms)"

definition parseImageReferences :: "string \<Rightarrow> ImageReference list" where
  "parseImageReferences content =
     pushLocal (pushLocal [] (execAll markdownImageAt 0 content)) (execAll htmlImageAt 0 content)"

section \<open>Errors (errors.ts)\<close>

text \<open>
  One constructor for each error class. The message of an \<open>ImageValidationError\<close> is
  kept as its parts: which check failed, the resolved path, and the size or the type.
  \<open>Error\<close> is a plain \<^verbatim>\<open>new Error(message)\<close>, also one thrown by a library, and
  \<open>TypeError\<close> is the one the runtime throws; its message is the runtime's and is not kept.
\<close>

datatype imageProblem =
    ImageNotFound string
  | ImageTooLarge string nat
  | InvalidImageType string string

datatype error =
    KeyfileNotFoundError string
  | InvalidKeyfileError
  | DecryptionError
  | InvalidSecretKeyError string
  | ApiError nat string
  | ValidationError "string list"
  | FileNotFoundError string
  | ImageValidationError imageProblem
  | AbortedError
  | Error string
  | TypeError

section \<open>Validating and uploading images (api-client.ts, utils.ts)\<close>

text \<open>The two settings of the configuration that \<open>validateImageFile\<close> reads.\<close>

record config =
  maxImageSize :: nat
  allowedImageTypes :: "string list"

definition DEFAULTS :: config where
  "DEFAULTS = \<lparr>maxImageSize = 5 * 1024 * 1024,
               allowedImageTypes = [''image/jpeg'', ''image/png'', ''image/webp'', ''image/gif'']\<rparr>"

text \<open>
  The file store: \<open>fs p\<close> is \<open>None\<close> when \<^verbatim>\<open>Bun.file(p).exists()\<close> is false, and
  gives the size and the type of the file otherwise.
\<close>

record bunFile =
  fileSize :: nat
  fileType :: string

type_synonym fileStore = "string \<Rightarrow> bunFile option"

definition resolvePath :: "string \<Rightarrow> string \<Rightarrow> string" where
  "resolvePath filePath basePath =
     (if startsWith filePath ''/'' then filePath else basePath @ ''/'' @ filePath)"

definition validateImageFile :: "config \<Rightarrow> fileStore \<Rightarrow> string \<Rightarrow> string \<Rightarrow> error + (bunFile \<times> string)" where
  "validateImageFile cfg fs filePath basePath =
     (let fullPath = resolvePath filePath basePath
      in case fs fullPath of
           None \<Rightarrow> Inl (ImageValidationError (ImageNotFound fullPath))
         | Some file \<Rightarrow>
             if fileSize file > maxImageSize cfg
             then Inl (ImageValidationError (ImageTooLarge fullPath (fileSize file)))
             else if fileType file \<notin> set (allowedImageTypes cfg)
             then Inl (ImageValidationError (InvalidImageType fullPath (fileType file)))
             else Inr (file, fullPath))"

text \<open>
  The remote service: \<open>up i fullPath\<close> is what \<open>uploadImage\<close> does on the call number
  \<open>i\<close> (counted from 0) for the file at \<open>fullPath\<close>, either the \<open>url\<close> of the response
  or the error thrown.
\<close>

type_synonym uploader = "nat \<Rightarrow> string \<Rightarrow> error + string"

text \<open>
  \<open>pathsToUpload\<close> is a \<open>Map\<close> from path to uploaded URL, which keeps its keys in the
  order of their first insertion: an association list.
\<close>

fun mapHas :: "(string \<times> string) list \<Rightarrow> string \<Rightarrow> bool" where
  "mapHas [] k = False"
| "mapHas ((k', v) # m) k = (k' = k \<or> mapHas m k)"

fun mapGet :: "(string \<times> string) list \<Rightarrow> string \<Rightarrow> string option" where
  "mapGet [] k = None"
| "mapGet ((k', v) # m) k = (if k' = k then Some v else mapGet m k)"

fun mapSet :: "(string \<times> string) list \<Rightarrow> string \<Rightarrow> string \<Rightarrow> (string \<times> string) list" where
  "mapSet [] k v = [(k, v)]"
| "mapSet ((k', v') # m) k v = (if k' = k then (k', v) # m else (k', v') # mapSet m k v)"

fun addContentImages :: "(string \<times> string) list \<Rightarrow> ImageReference list \<Rightarrow> (string \<times> string) list" where
  "addContentImages m [] = m"
| "addContentImages m (r # rs) =
     addContentImages (if \<not> mapHas m (path r) then mapSet m (path r) [] else m) rs"

definition addFeaturedImage :: "(string \<times> string) list \<Rightarrow> string option \<Rightarrow> (string \<times> string) list" where
  "addFeaturedImage m featuredImage =
     (case featuredImage of
        None \<Rightarrow> m
      | Some f \<Rightarrow>
          if f \<noteq> [] \<and> isLocalPath f
          then (if \<not> mapHas m f then mapSet m f [] else m)
          else m)"

text \<open>The map as it is when the uploads start: every path once, with no URL yet.\<close>

definition collectPaths :: "ImageReference list \<Rightarrow> string option \<Rightarrow> (string \<times> string) list" where
  "collectPaths imageRefs featuredImage = addFeaturedImage (addContentImages [] imageRefs) featuredImage"

text \<open>
  The loop over the entries of the map. It only sets keys that are there already, so
  it visits the keys in the order they had before the loop. The second component is the
  log of the calls of \<open>uploadImage\<close>, one resolved path for each.
\<close>

fun uploadEach :: "config \<Rightarrow> fileStore \<Rightarrow> uploader \<Rightarrow> string \<Rightarrow> string list \<Rightarrow>
    (string \<times> string) list \<Rightarrow> string list \<Rightarrow> (error + (string \<times> string) list) \<times> string list" where
  "uploadEach cfg fs up basePath [] m log = (Inr m, log)"
| "uploadEach cfg fs up basePath (localPath # ps) m log =
     (case validateImageFile cfg fs localPath basePath of
        Inl e \<Rightarrow> (Inl e, log)
      | Inr (file, fullPath) \<Rightarrow>
          (case up (length log) fullPath of
             Inl e \<Rightarrow> (Inl e, log @ [fullPath])
           | Inr url \<Rightarrow> uploadEach cfg fs up basePath ps (mapSet m localPath url) (log @ [fullPath])))"

fun replacePaths :: "(string \<times> string) list \<Rightarrow> ImageReference list \<Rightarrow> string \<Rightarrow> string" where
  "replacePaths m [] processedContent = processedContent"
| "replacePaths m (r # rs) processedContent =
     (case mapGet m (path r) of
        None \<Rightarrow> replacePaths m rs processedContent
      | Some uploadedUrl \<Rightarrow>
          if uploadedUrl \<noteq> []
          then replacePaths m rs
                 (replaceFirst processedContent (original r)
                    (replaceFirst (original r) (path r) uploadedUrl))
          else replacePaths m rs processedContent)"

record processed =
  content :: string
  featuredImageUrl :: "string option"

definition processImages :: "config \<Rightarrow> fileStore \<Rightarrow> uploader \<Rightarrow> string \<Rightarrow> string option \<Rightarrow> string \<Rightarrow>
    (error + processed) \<times> string list" where
  "processImages cfg fs up contentIn featuredImage basePath =
     (let imageRefs = parseImageReferences contentIn;
          pathsToUpload = collectPaths imageRefs featuredImage
      in if pathsToUpload = []
         then (Inr \<lparr>content = contentIn, featuredImageUrl = featuredImage\<rparr>, [])
         else
           (case uploadEach cfg fs up basePath (map fst pathsToUpload) pathsToUpload [] of
              (Inl e, log) \<Rightarrow> (Inl e, log)
            | (Inr uploaded, log) \<Rightarrow>
                (Inr \<lparr>content = replacePaths uploaded imageRefs contentIn,
                      featuredImageUrl =
                        (case featuredImage of
                           None \<Rightarrow> None
                         | Some f \<Rightarrow> if f \<noteq> [] \<and> isLocalPath f then mapGet uploaded f else Some f)\<rparr>,
                 log)))"

section \<open>Secret keys (crypto.ts)\<close>

type_synonym bytes = "8 word list"

definition isHexChar :: "char \<Rightarrow> bool" where
  "isHexChar c = (c \<in> set ''0123456789abcdefABCDEF'')"

text \<open>The test \<^verbatim>\<open>/^[0-9a-fA-F]{64}$/\<close>.\<close>

definition isHex64 :: "string \<Rightarrow> bool" where
  "isHex64 s = (length s = 64 \<and> list_all isHexChar s)"

definition hexDigit :: "char \<Rightarrow> nat option" where
  "hexDigit c =
     (let n = (of_char c :: nat)
      in if 48 \<le> n \<and> n \<le> 57 then Some (n - 48)
         else if 65 \<le> n \<and> n \<le> 70 then Some (n - 55)
         else if 97 \<le> n \<and> n \<le> 102 then Some (n - 87)
         else None)"

text \<open>
  Modelled from the spec: \<open>hexToBytes\<close> belongs to the hashing library and is not under
  src/. The spec has the hexadecimal characters decoded to bytes, two characters for a
  byte; \<open>None\<close> stands for the exception on a string that is not of that form.
\<close>

fun hexToBytes :: "string \<Rightarrow> bytes option" where
  "hexToBytes [] = Some []"
| "hexToBytes [c] = None"
| "hexToBytes (h # l # t) =
     (case (hexDigit h, hexDigit l, hexToBytes t) of
        (Some a, Some b, Some r) \<Rightarrow> Some (of_nat (16 * a + b) # r)
      | _ \<Rightarrow> None)"

text \<open>
  The bech32 codec \<open>decode\<close> of the key library is a parameter of the model: on a string
  it either throws (\<open>Inl\<close> the exception) or returns the type tag of the encoded value
  with its data.
\<close>

type_synonym codec = "string \<Rightarrow> error + (string \<times> bytes)"

definition parseSecretKey :: "codec \<Rightarrow> string \<Rightarrow> error + bytes" where
  "parseSecretKey decode input =
     (let trimmed = trim input
      in if startsWith trimmed ''nsec1''
         then (case decode trimmed of
                 Inl e \<Rightarrow> Inl e
               | Inr (ty, dat) \<Rightarrow>
                   if ty \<noteq> ''nsec'' then Inl (InvalidSecretKeyError ''Invalid nsec format'')
                   else Inr dat)
         else if \<not> isHex64 trimmed
         then Inl (InvalidSecretKeyError ''Invalid secret key format. Expected nsec or 64-character hex string'')
         else (case hexToBytes trimmed of
                 None \<Rightarrow> Inl (Error ''hex string expected'')
               | Some bs \<Rightarrow> Inr bs))"

text \<open>
  What \<open>getSecretKey\<close> finds outside the program: the key files (\<open>None\<close> when
  \<^verbatim>\<open>keyfile.exists()\<close> is false, the text of the file otherwise), the \<open>password\<close>
  field of the prompt's response (\<open>None\<close> when it is undefined, as after a cancelled
  prompt) and the \<open>decrypt\<close> function of the key library, which throws or returns a key.
\<close>

record keyEnv =
  keyfiles :: "string \<Rightarrow> string option"
  promptPassword :: "string option"
  decrypt :: "string \<Rightarrow> string \<Rightarrow> error + bytes"

text \<open>The calls \<open>getSecretKey\<close> makes, in their order, are returned with its result.\<close>

datatype effect = ReadKeyfile string | AskPassword | Decrypt string string

definition getSecretKey :: "keyEnv \<Rightarrow> string \<Rightarrow> (error + bytes) \<times> effect list" where
  "getSecretKey env keyfilePath =
     (case keyfiles env keyfilePath of
        None \<Rightarrow> (Inl (KeyfileNotFoundError keyfilePath), [])
      | Some ncryptsec \<Rightarrow>
          if \<not> startsWith ncryptsec ''ncryptsec1''
          then (Inl InvalidKeyfileError, [ReadKeyfile keyfilePath])
          else
            (case promptPassword env of
               None \<Rightarrow> (Inl AbortedError, [ReadKeyfile keyfilePath, AskPassword])
             | Some pw \<Rightarrow>
                 if pw = [] then (Inl AbortedError, [ReadKeyfile keyfilePath, AskPassword])
                 else
                   (case decrypt env (trim ncryptsec) pw of
                      Inl e \<Rightarrow>
                        (Inl DecryptionError,
                         [ReadKeyfile keyfilePath, AskPassword, Decrypt (trim ncryptsec) pw])
                    | Inr key \<Rightarrow>
                        (Inr key,
                         [ReadKeyfile keyfilePath, AskPassword, Decrypt (trim ncryptsec) pw]))))"

section \<open>Front matter (utils.ts)\<close>

text \<open>
  A value of a front-matter field is a string or a list of strings. The interface
  \<open>PostFrontmatter\<close> declares which one each field holds, but \<open>setFrontmatterField\<close>
  stores what the line gives through a cast, so the record keeps either in every field.
\<close>

datatype fmvalue = Str string | Arr "string list"

record PostFrontmatter =
  fm_slug :: "fmvalue option"
  fm_title :: "fmvalue option"
  fm_author :: "fmvalue option"
  fm_excerpt :: "fmvalue option"
  fm_featured_image :: "fmvalue option"
  fm_tags :: "fmvalue option"

definition emptyFrontmatter :: PostFrontmatter where
  "emptyFrontmatter = \<lparr>fm_slug = None, fm_title = None, fm_author = None, fm_excerpt = None,
                        fm_featured_image = None, fm_tags = None\<rparr>"

text \<open>What \<^verbatim>\<open>if (x)\<close> tests: an absent field and the empty string are falsy, a list is not.\<close>

fun truthy :: "fmvalue option \<Rightarrow> bool" where
  "truthy None = False"
| "truthy (Some (Str s)) = (s \<noteq> [])"
| "truthy (Some (Arr a)) = True"

definition setFrontmatterField :: "PostFrontmatter \<Rightarrow> string \<Rightarrow> fmvalue \<Rightarrow> PostFrontmatter" where
  "setFrontmatterField fm key v =
     (if key = ''slug'' then fm\<lparr>fm_slug := Some v\<rparr>
      else if key = ''title'' then fm\<lparr>fm_title := Some v\<rparr>
      else if key = ''author'' then fm\<lparr>fm_author := Some v\<rparr>
      else if key = ''excerpt'' then fm\<lparr>fm_excerpt := Some v\<rparr>
      else if key = ''featured_image'' then fm\<lparr>fm_featured_image := Some v\<rparr>
      else if key = ''tags'' then fm\<lparr>fm_tags := Some v\<rparr>
      else fm)"

text \<open>
  The match of \<^verbatim>\<open>/^---\n([\s\S]*?)\n---\n([\s\S]*)$/\<close>: the input starts with the
  opening line, the first group is lazy and so ends at the leftmost closing line after
  it, and the second group takes the rest. The result is the two groups.
\<close>

definition frontmatterMatch :: "string \<Rightarrow> (string \<times> string) option" where
  "frontmatterMatch markdown =
     (if startsWith markdown [CHR ''-'', CHR ''-'', CHR ''-'', CHR 0x0A]
      then splitAtFirst [CHR 0x0A, CHR ''-'', CHR ''-'', CHR ''-'', CHR 0x0A] (drop 4 markdown)
      else None)"

text \<open>\<^verbatim>\<open>replace(/^["']|["']$/g, "")\<close>: a quote at the start goes, and a quote at the end of what is left.\<close>

definition stripQuotes :: "string \<Rightarrow> string" where
  "stripQuotes s =
     (let s1 = (if s \<noteq> [] \<and> isQuote (hd s) then tl s else s)
      in if s1 \<noteq> [] \<and> isQuote (last s1) then butlast s1 else s1)"

definition parseLine :: "PostFrontmatter \<Rightarrow> string \<Rightarrow> PostFrontmatter" where
  "parseLine fm line =
     (case splitAtFirst '':'' line of
        None \<Rightarrow> fm
      | Some (k, v) \<Rightarrow>
          let key = trim k; val = trim v
          in if startsWith val ''['' \<and> endsWith val '']''
             then setFrontmatterField fm key
                    (Arr (filter (\<lambda>item. item \<noteq> [])
                       (map (\<lambda>item. stripQuotes (trim item)) (splitOn CHR '','' (butlast (tl val))))))
             else setFrontmatterField fm key (Str (stripQuotes val)))"

definition parseFrontmatter :: "string \<Rightarrow> PostFrontmatter \<times> string" where
  "parseFrontmatter markdown =
     (case frontmatterMatch markdown of
        None \<Rightarrow> (emptyFrontmatter, markdown)
      | Some (frontmatterStr, body) \<Rightarrow>
          if frontmatterStr = [] then (emptyFrontmatter, markdown)
          else (foldl parseLine emptyFrontmatter (splitOn (CHR 0x0A) frontmatterStr), trim body))"

definition getBasePath :: "string \<Rightarrow> string" where
  "getBasePath filePath =
     (if CHR ''/'' \<in> set filePath
      then rev (drop 1 (dropWhile (\<lambda>c. c \<noteq> CHR ''/'') (rev filePath)))
      else ''.'')"

section \<open>The commands (create-post.ts, update-post.ts)\<close>

text \<open>
  Everything a command reads from outside: the markdown files (\<open>None\<close> when
  \<^verbatim>\<open>file.exists()\<close> is false), the image files, the upload service, the key file
  with its prompt, the library function \<open>getPublicKey\<close> (which may throw) and the
  configuration.
\<close>

record world =
  files :: "string \<Rightarrow> string option"
  images :: fileStore
  upload :: uploader
  keyStore :: keyEnv
  getPublicKey :: "bytes \<Rightarrow> error + string"
  settings :: config

text \<open>
  \<open>processImages\<close> called with the value of a front-matter field. On a list the call
  \<^verbatim>\<open>isLocalPath(featuredImage)\<close> throws a \<open>TypeError\<close> (a list has no \<open>startsWith\<close>),
  before any upload.
\<close>

definition processImagesOf :: "world \<Rightarrow> string \<Rightarrow> fmvalue option \<Rightarrow> string \<Rightarrow> error + processed" where
  "processImagesOf w body featuredImage basePath =
     (case featuredImage of
        None \<Rightarrow> fst (processImages (settings w) (images w) (upload w) body None basePath)
      | Some (Str f) \<Rightarrow> fst (processImages (settings w) (images w) (upload w) body (Some f) basePath)
      | Some (Arr a) \<Rightarrow> Inl TypeError)"

record PostPayload =
  pp_slug :: "fmvalue option"
  pp_title :: "fmvalue option"
  pp_content :: string
  pp_author :: "fmvalue option"
  pp_excerpt :: "fmvalue option"
  pp_featured_image :: "fmvalue option"
  pp_tags :: "fmvalue option"

definition missingFields :: "PostFrontmatter \<Rightarrow> string list" where
  "missingFields frontmatter =
     (if \<not> truthy (fm_slug frontmatter) then [''slug''] else []) @
     (if \<not> truthy (fm_title frontmatter) then [''title''] else []) @
     (if \<not> truthy (fm_author frontmatter) then [''author''] else [])"

text \<open>
  \<open>createPost\<close> up to the request: the result is the payload handed to the API client.
  \<open>createPostValidated\<close> is the part of the function after the check of the required
  fields.
\<close>

definition createPostValidated :: "world \<Rightarrow> string \<Rightarrow> string \<Rightarrow> PostFrontmatter \<Rightarrow> string \<Rightarrow> error + PostPayload" where
  "createPostValidated w filePath keyfilePath frontmatter body =
     (case fst (getSecretKey (keyStore w) keyfilePath) of
        Inl e \<Rightarrow> Inl e
      | Inr secretKey \<Rightarrow>
          (case getPublicKey w secretKey of
             Inl e \<Rightarrow> Inl e
           | Inr pubkey \<Rightarrow>
               (case processImagesOf w body (fm_featured_image frontmatter) (getBasePath filePath) of
                  Inl e \<Rightarrow> Inl e
                | Inr r \<Rightarrow>
                    Inr \<lparr>pp_slug = fm_slug frontmatter,
                         pp_title = fm_title frontmatter,
                         pp_content = content r,
                         pp_author = fm_author frontmatter,
                         pp_excerpt = fm_excerpt frontmatter,
                         pp_featured_image = map_option Str (featuredImageUrl r),
                         pp_tags = fm_tags frontmatter\<rparr>)))"

definition createPost :: "world \<Rightarrow> string \<Rightarrow> string \<Rightarrow> error + PostPayload" where
  "createPost w filePath keyfilePath =
     (case files w filePath of
        None \<Rightarrow> Inl (FileNotFoundError filePath)
      | Some markdown \<Rightarrow>
          let frontmatter = fst (parseFrontmatter markdown);
              body = snd (parseFrontmatter markdown)
          in if missingFields frontmatter \<noteq> [] then Inl (ValidationError (missingFields frontmatter))
             else createPostValidated w filePath keyfilePath frontmatter body)"

record UpdatePostOptions =
  o_keyfile :: string
  o_file :: "string option"
  o_title :: "string option"
  o_content :: "string option"
  o_excerpt :: "string option"
  o_featuredImage :: "string option"
  o_author :: "string option"
  o_tags :: "string option"
  o_newSlug :: "string option"

record UpdatePayload =
  u_slug :: "fmvalue option"
  u_title :: "fmvalue option"
  u_content :: "fmvalue option"
  u_excerpt :: "fmvalue option"
  u_featured_image :: "fmvalue option"
  u_author :: "fmvalue option"
  u_tags :: "fmvalue option"

definition emptyPayload :: UpdatePayload where
  "emptyPayload = \<lparr>u_slug = None, u_title = None, u_content = None, u_excerpt = None,
                    u_featured_image = None, u_author = None, u_tags = None\<rparr>"

text \<open>The local variables of \<open>updatePost\<close>.\<close>

record draft =
  payload :: UpdatePayload
  basePath :: string
  contentFromFile :: "string option"
  featuredImageFromFile :: "fmvalue option"

definition emptyDraft :: draft where
  "emptyDraft = \<lparr>payload = emptyPayload, basePath = ''.'', contentFromFile = None,
                  featuredImageFromFile = None\<rparr>"

text \<open>An option of the command line counts when it is there and not the empty string.\<close>

fun given :: "string option \<Rightarrow> bool" where
  "given None = False"
| "given (Some v) = (v \<noteq> [])"

text \<open>The block \<^verbatim>\<open>if (options.file) { ... }\<close> after the file has been read.\<close>

definition fromFile :: "string \<Rightarrow> string \<Rightarrow> draft" where
  "fromFile file markdown =
     (let frontmatter = fst (parseFrontmatter markdown);
          body = snd (parseFrontmatter markdown)
      in \<lparr>payload =
             \<lparr>u_slug = (if truthy (fm_slug frontmatter) then fm_slug frontmatter else None),
              u_title = (if truthy (fm_title frontmatter) then fm_title frontmatter else None),
              u_content = None,
              u_excerpt = (if truthy (fm_excerpt frontmatter) then fm_excerpt frontmatter else None),
              u_featured_image = None,
              u_author = (if truthy (fm_author frontmatter) then fm_author frontmatter else None),
              u_tags = (if truthy (fm_tags frontmatter) then fm_tags frontmatter else None)\<rparr>,
          basePath = getBasePath file,
          contentFromFile = (if body \<noteq> [] then Some body else None),
          featuredImageFromFile =
            (if truthy (fm_featured_image frontmatter) then fm_featured_image frontmatter else None)\<rparr>)"

text \<open>The whole block, with the check that the file is there; without a file nothing is set.\<close>

definition loadDraft :: "world \<Rightarrow> UpdatePostOptions \<Rightarrow> error + draft" where
  "loadDraft w options =
     (case o_file options of
        None \<Rightarrow> Inr emptyDraft
      | Some file \<Rightarrow>
          if file = [] then Inr emptyDraft
          else (case files w file of
                  None \<Rightarrow> Inl (FileNotFoundError file)
                | Some markdown \<Rightarrow> Inr (fromFile file markdown)))"

text \<open>The block under the comment \<^verbatim>\<open>// CLI options override file content\<close>.\<close>

definition applyOptions :: "UpdatePostOptions \<Rightarrow> draft \<Rightarrow> draft" where
  "applyOptions options d =
     d\<lparr>payload :=
         \<lparr>u_slug = (if given (o_newSlug options) then map_option Str (o_newSlug options)
                    else u_slug (payload d)),
          u_title = (if given (o_title options) then map_option Str (o_title options)
                     else u_title (payload d)),
          u_content = (if given (o_content options) then map_option Str (o_content options)
                       else u_content (payload d)),
          u_excerpt = (if given (o_excerpt options) then map_option Str (o_excerpt options)
                       else u_excerpt (payload d)),
          u_featured_image = u_featured_image (payload d),
          u_author = (if given (o_author options) then map_option Str (o_author options)
                      else u_author (payload d)),
          u_tags = (case o_tags options of
                      None \<Rightarrow> u_tags (payload d)
                    | Some t \<Rightarrow> if t \<noteq> [] then Some (Arr (map trim (splitOn CHR '','' t)))
                                else u_tags (payload d))\<rparr>,
       featuredImageFromFile :=
         (if given (o_featuredImage options) then map_option Str (o_featuredImage options)
          else featuredImageFromFile d)\<rparr>"

text \<open>
  \<open>contentFromFile\<close> and \<open>featuredImageFromFile\<close> are only ever set to a value that is
  truthy, so they are truthy when they are set.
\<close>

fun present :: "'a option \<Rightarrow> bool" where
  "present None = False"
| "present (Some v) = True"

text \<open>\<^verbatim>\<open>Object.keys(payload).length === 0\<close>.\<close>

definition noKeys :: "UpdatePayload \<Rightarrow> bool" where
  "noKeys p = (u_slug p = None \<and> u_title p = None \<and> u_content p = None \<and> u_excerpt p = None \<and>
               u_featured_image p = None \<and> u_author p = None \<and> u_tags p = None)"

text \<open>\<open>updatePost\<close> up to the request: the result is the payload handed to the API client.\<close>

definition updatePost :: "world \<Rightarrow> string \<Rightarrow> UpdatePostOptions \<Rightarrow> error + UpdatePayload" where
  "updatePost w slug options =
     (case loadDraft w options of
        Inl e \<Rightarrow> Inl e
      | Inr d0 \<Rightarrow>
          let d = applyOptions options d0;
              hasContentOrImages = (present (contentFromFile d) \<or> present (featuredImageFromFile d))
          in if noKeys (payload d) \<and> \<not> hasContentOrImages
             then Inl (Error ''No updates provided. Use --file or field options (--title, --content, etc.)'')
             else
               (case fst (getSecretKey (keyStore w) (o_keyfile options)) of
                  Inl e \<Rightarrow> Inl e
                | Inr secretKey \<Rightarrow>
                    (case getPublicKey w secretKey of
                       Inl e \<Rightarrow> Inl e
                     | Inr pubkey \<Rightarrow>
                         if hasContentOrImages
                         then
                           (case processImagesOf w (case contentFromFile d of None \<Rightarrow> [] | Some c \<Rightarrow> c)
                                   (featuredImageFromFile d) (basePath d) of
                              Inl e \<Rightarrow> Inl e
                            | Inr r \<Rightarrow>
                                Inr ((payload d)
                                  \<lparr>u_content :=
                                     (if present (contentFromFile d) then Some (Str (content r))
                                      else u_content (payload d)),
                                   u_featured_image :=
                                     (if present (featuredImageFromFile d)
                                      then map_option Str (featuredImageUrl r)
                                      else u_featured_image (payload d))\<rparr>))
                         else Inr (payload d))))"

section \<open>Notions of the statements\<close>

text \<open>The paths \<open>processImages\<close> sets out to upload, in the order of the uploads.\<close>

definition uploadSet :: "string \<Rightarrow> string option \<Rightarrow> string list" where
  "uploadSet c featuredImage = map fst (collectPaths (parseImageReferences c) featuredImage)"

text \<open>
  An asset fails when its file is missing, too large or of a type that is not allowed,
  or when its upload, the call number \<open>i\<close>, fails. \<open>assetOutcome\<close> is what the body of
  the upload loop gets for it.
\<close>

definition assetFails :: "config \<Rightarrow> fileStore \<Rightarrow> uploader \<Rightarrow> string \<Rightarrow> nat \<Rightarrow> string \<Rightarrow> bool" where
  "assetFails cfg fs up base i p =
     (case fs (resolvePath p base) of
        None \<Rightarrow> True
      | Some f \<Rightarrow> fileSize f > maxImageSize cfg \<or> fileType f \<notin> set (allowedImageTypes cfg) \<or>
                  isl (up i (resolvePath p base)))"

definition assetOutcome :: "config \<Rightarrow> fileStore \<Rightarrow> uploader \<Rightarrow> string \<Rightarrow> nat \<Rightarrow> string \<Rightarrow> error + string" where
  "assetOutcome cfg fs up base i p =
     (case validateImageFile cfg fs p base of
        Inl e \<Rightarrow> Inl e
      | Inr (file, fullPath) \<Rightarrow> up i fullPath)"


definition hasDecrypt :: "effect list \<Rightarrow> bool" where
  "hasDecrypt tr = list_ex (\<lambda>e. case e of Decrypt c pw \<Rightarrow> True | _ \<Rightarrow> False) tr"

text \<open>
  Texts put together from plain text and images, for the statement about the scan. An
  item is an inline markdown marker, \<^verbatim>\<open>![alt](path)\<close> or \<^verbatim>\<open>![alt](path "title")\<close> with
  the white space before the title kept, or an image tag
  \<^verbatim>\<open><img ... src="path" ...>\<close>, kept as its parts: the four letters of the tag name, the
  attributes before \<open>src=\<close>, the letters of \<open>src=\<close>, the two quotes around the path and
  what follows up to the closing \<open>>\<close>. \<open>renderItem\<close> is the text of the item and
  \<open>renderDoc\<close> the text of a document: each item after a stretch of text, and a last
  stretch of text.
\<close>

datatype item =
    Markdown string string "(string \<times> string) option"
  | ImgTag string string string char string char string













section \<open>Concrete inputs\<close>

definition nl :: string where
  "nl = [CHR 0x0A]"

definition keyEnvOf :: "string option \<Rightarrow> string option \<Rightarrow> (error + bytes) \<Rightarrow> keyEnv" where
  "keyEnvOf text pw d =
     \<lparr>keyfiles = (\<lambda>p. if p = ''key.txt'' then text else None),
      promptPassword = pw,
      decrypt = (\<lambda>c p. d)\<rparr>"

text \<open>A directory \<open>posts\<close> with one image of ten bytes, and a service that stores it.\<close>

definition demoImages :: fileStore where
  "demoImages p =
     (if p = ''posts/./x.png'' then Some \<lparr>fileSize = 10, fileType = ''image/png''\<rparr> else None)"

definition demoUpload :: uploader where
  "demoUpload i p = Inr ''https://cdn/x.png''"

definition demoWorld :: "string \<Rightarrow> world" where
  "demoWorld markdown =
     \<lparr>files = (\<lambda>p. if p = ''posts/post.md'' then Some markdown else None),
      images = demoImages,
      upload = demoUpload,
      keyStore = keyEnvOf (Some ''ncryptsec1abc'') (Some ''pw'') (Inr [1, 2]),
      getPublicKey = (\<lambda>k. Inr ''pub''),
      settings = DEFAULTS\<rparr>"

text \<open>
  A codec that knows one private key, the one of the test suite, and rejects every
  other string with an exception, as a bech32 decoder does on a string with a letter
  outside its alphabet.
\<close>

definition demoCodec :: codec where
  "demoCodec s =
     (if s = ''nsec1vl029mgpspedva04g90vltkh6fvh240zqtv9k0t9af8935ke9laqsnlfe5''
      then Inr (''nsec'',
        [0x67, 0xde, 0xa2, 0xed, 0x01, 0x80, 0x72, 0xd6, 0x75, 0xf5, 0x41, 0x5e, 0xcf, 0xae, 0xd7, 0xd2,
         0x59, 0x75, 0x55, 0xe2, 0x02, 0xd8, 0x5b, 0x3d, 0x65, 0xea, 0x4e, 0x58, 0xd2, 0xd9, 0x2f, 0xfa])
      else Inl (Error ''Unknown letter''))"

text \<open>Markdown files and the options of an update.\<close>

definition emptyAuthor :: string where
  "emptyAuthor = ''---'' @ nl @ ''slug: hello'' @ nl @ ''title: Hello'' @ nl @ ''author: []'' @ nl @
     ''---'' @ nl @ ''Body text''"

definition titleAndBody :: string where
  "titleAndBody = ''---'' @ nl @ ''title: A'' @ nl @ ''---'' @ nl @ ''file body''"

definition titleAndContentOptions :: UpdatePostOptions where
  "titleAndContentOptions =
     \<lparr>o_keyfile = ''key.txt'', o_file = Some ''posts/post.md'', o_title = Some ''B'',
      o_content = Some ''cli body'', o_excerpt = None, o_featuredImage = None, o_author = None,
      o_tags = None, o_newSlug = None\<rparr>"


section \<open>Properties\<close>

subsection \<open>Strings\<close>

lemma startsWith_prefix: "startsWith s p = prefix p s"
  unfolding startsWith_def
  by (metis append_eq_conv_conj prefixE take_is_prefix)

lemma splitAtFirst_None: "splitAtFirst pat s = None \<longleftrightarrow> \<not> sublist pat s"
  by (induction s) (auto simp: startsWith_prefix sublist_Cons_right split: option.splits)

lemma splitAtFirst_starts:
  "startsWith s pat \<Longrightarrow> splitAtFirst pat s = Some ([], drop (length pat) s)"
  by (cases s) (auto simp: startsWith_def)

lemma splitAtFirst_here: "splitAtFirst pat (pat @ r) = Some ([], r)"
  using splitAtFirst_starts [of "pat @ r" pat] by (simp add: startsWith_def)

subsection \<open>Where the front matter falls back to the whole input\<close>

text \<open>
  The parser returns the whole input when no closing line \<open>---\<close> with its line feed
  comes after the first four characters, and when the closing line comes right after an
  empty line.
\<close>

lemma parseFrontmatter_no_closing_line:
  "\<not> sublist (nl @ ''---'' @ nl) (drop 4 markdown) \<Longrightarrow>
   parseFrontmatter markdown = (emptyFrontmatter, markdown)"
  using splitAtFirst_None [of "nl @ ''---'' @ nl" "drop 4 markdown"]
  by (simp add: parseFrontmatter_def frontmatterMatch_def nl_def)

lemma parseFrontmatter_empty_line:
  "parseFrontmatter (''---'' @ nl @ nl @ ''---'' @ nl @ rest)
     = (emptyFrontmatter, ''---'' @ nl @ nl @ ''---'' @ nl @ rest)"
proof -
  have "frontmatterMatch (''---'' @ nl @ nl @ ''---'' @ nl @ rest) = Some ([], rest)"
    using splitAtFirst_here [of "nl @ ''---'' @ nl" rest]
    by (simp add: frontmatterMatch_def startsWith_def nl_def)
  then show ?thesis
    by (simp add: parseFrontmatter_def)
qed

subsection \<open>The scan for image references\<close>









lemma isLocalPath_prefix: "isLocalPath s = (\<not> prefix ''http://'' s \<and> \<not> prefix ''https://'' s)"
  by (simp add: isLocalPath_def startsWith_prefix)













lemma isSpace_chars [simp]: "\<not> isSpace (CHR '')'')" "\<not> isSpace (CHR 0x22)"
  by (simp_all add: isSpace_def)





lemma lowerAscii_gt [simp]: "lowerAscii (CHR ''>'') = CHR ''>''"
  by (simp add: lowerAscii_def)





lemma lowerAscii_quote: "isQuote q \<Longrightarrow> lowerAscii q = q"
  by (auto simp: isQuote_def lowerAscii_def)





text \<open>
  The two loops over a composed text: nothing matches inside a stretch of plain text
  or inside an item of the other kind, and each item of the pattern's own kind is one
  match.
\<close>

lemma lowerAscii_marks [simp]:
  "lowerAscii (CHR ''!'') = CHR ''!''" "lowerAscii (CHR ''<'') = CHR ''<''"
  "lowerAscii (CHR '')'') = CHR '')''"
  by (simp_all add: lowerAscii_def)



















subsection \<open>The paths to upload\<close>

lemma mapHas_keys: "mapHas m k = (k \<in> fst ` set m)"
  by (induction m) auto

lemma mapSet_fst:
  "map fst (mapSet m k v) = (if k \<in> fst ` set m then map fst m else map fst m @ [k])"
  by (induction m) (force simp: image_iff)+

lemma mapSet_keys: "fst ` set (mapSet m k v) = insert k (fst ` set m)"
  using arg_cong [OF mapSet_fst [of m k v], of set]
  by (auto simp del: set_map simp: set_map [symmetric])

lemma mapSet_new: "k \<notin> fst ` set m \<Longrightarrow> map fst (mapSet m k v) = map fst m @ [k]"
  by (simp add: mapSet_fst)

lemma addContentImages_keys:
  "fst ` set (addContentImages m rs) = fst ` set m \<union> path ` set rs"
  by (induction m rs rule: addContentImages.induct) (auto simp: mapHas_keys mapSet_keys)

lemma addContentImages_distinct:
  "distinct (map fst m) \<Longrightarrow> distinct (map fst (addContentImages m rs))"
  by (induction m rs rule: addContentImages.induct) (auto simp: mapHas_keys mapSet_new)

lemma uploadSet_set:
  "set (uploadSet c featured) =
     path ` set (parseImageReferences c) \<union>
     (case featured of None \<Rightarrow> {} | Some f \<Rightarrow> if f \<noteq> [] \<and> isLocalPath f then {f} else {})"
  by (auto simp: uploadSet_def collectPaths_def addFeaturedImage_def addContentImages_keys
      mapHas_keys mapSet_keys split: option.splits)

lemma uploadSet_distinct: "distinct (uploadSet c featured)"
  using addContentImages_distinct [of "[]" "parseImageReferences c"]
  by (auto simp: uploadSet_def collectPaths_def addFeaturedImage_def mapHas_keys mapSet_new
      split: option.splits)

subsection \<open>The upload loop\<close>

lemma assetFails_outcome: "assetFails cfg fs up base i p = isl (assetOutcome cfg fs up base i p)"
  by (auto simp: assetFails_def assetOutcome_def validateImageFile_def Let_def split: option.splits)

lemma uploadEach_step:
  "uploadEach cfg fs up base (p # ps) m log =
     (case assetOutcome cfg fs up base (length log) p of
        Inl e \<Rightarrow> (Inl e, if isl (validateImageFile cfg fs p base) then log else log @ [resolvePath p base])
      | Inr url \<Rightarrow> uploadEach cfg fs up base ps (mapSet m p url) (log @ [resolvePath p base]))"
  by (auto simp: assetOutcome_def validateImageFile_def Let_def split: option.splits sum.splits)

lemma uploadEach_first:
  "j < length ps \<Longrightarrow> (\<forall>i<j. \<not> assetFails cfg fs up base (length log + i) (ps ! i)) \<Longrightarrow>
   assetOutcome cfg fs up base (length log + j) (ps ! j) = Inl e \<Longrightarrow>
   fst (uploadEach cfg fs up base ps m log) = Inl e"
proof (induction ps arbitrary: m log j)
  case Nil
  then show ?case by simp
next
  case (Cons p ps)
  show ?case
  proof (cases j)
    case 0
    with Cons.prems show ?thesis by (simp add: uploadEach_step del: uploadEach.simps)
  next
    case (Suc k)
    from Cons.prems(2) Suc have "\<not> assetFails cfg fs up base (length log) p"
      by force
    then obtain url where url: "assetOutcome cfg fs up base (length log) p = Inr url"
      by (cases "assetOutcome cfg fs up base (length log) p") (auto simp: assetFails_outcome)
    have "fst (uploadEach cfg fs up base ps (mapSet m p url) (log @ [resolvePath p base])) = Inl e"
    proof (rule Cons.IH [of k])
      show "k < length ps" using Cons.prems(1) Suc by simp
      show "\<forall>i<k. \<not> assetFails cfg fs up base (length (log @ [resolvePath p base]) + i) (ps ! i)"
        using Cons.prems(2) Suc by force
      show "assetOutcome cfg fs up base (length (log @ [resolvePath p base]) + k) (ps ! k) = Inl e"
        using Cons.prems(3) Suc by simp
    qed
    with url show ?thesis by (simp add: uploadEach_step del: uploadEach.simps)
  qed
qed

lemma uploadEach_fails:
  "j < length ps \<Longrightarrow> assetFails cfg fs up base (length log + j) (ps ! j) \<Longrightarrow>
   isl (fst (uploadEach cfg fs up base ps m log))"
proof (induction ps arbitrary: m log j)
  case Nil
  then show ?case by simp
next
  case (Cons p ps)
  show ?case
  proof (cases "assetOutcome cfg fs up base (length log) p")
    case (Inl e)
    then show ?thesis by (simp add: uploadEach_step del: uploadEach.simps)
  next
    case (Inr url)
    then obtain k where k: "j = Suc k"
      using Cons.prems(2) by (cases j) (auto simp: assetFails_outcome)
    have "isl (fst (uploadEach cfg fs up base ps (mapSet m p url) (log @ [resolvePath p base])))"
      by (rule Cons.IH [of k]) (use Cons.prems k in auto)
    with Inr show ?thesis by (simp add: uploadEach_step del: uploadEach.simps)
  qed
qed

lemma processImages_upload:
  "uploadSet c featured \<noteq> [] \<Longrightarrow>
   fst (processImages cfg fs up c featured base) = Inl e \<longleftrightarrow>
   fst (uploadEach cfg fs up base (uploadSet c featured)
          (collectPaths (parseImageReferences c) featured) []) = Inl e"
  by (auto simp: processImages_def uploadSet_def Let_def split: prod.splits sum.splits)

lemma processImages_isl:
  "uploadSet c featured \<noteq> [] \<Longrightarrow>
   isl (fst (processImages cfg fs up c featured base)) =
   isl (fst (uploadEach cfg fs up base (uploadSet c featured)
          (collectPaths (parseImageReferences c) featured) []))"
  by (auto simp: processImages_def uploadSet_def Let_def split: prod.splits sum.splits)

lemma uploadEach_log:
  "fst (uploadEach cfg fs up base ps m log) = Inr m' \<Longrightarrow>
   snd (uploadEach cfg fs up base ps m log) = log @ map (\<lambda>p. resolvePath p base) ps"
proof (induction ps arbitrary: m log)
  case Nil
  then show ?case by simp
next
  case (Cons p ps)
  then show ?case
    by (cases "assetOutcome cfg fs up base (length log) p")
      (simp_all add: uploadEach_step del: uploadEach.simps)
qed

text \<open>When \<open>processImages\<close> succeeds it has uploaded each of the distinct paths once.\<close>

lemma processImages_uploads_once:
  "fst (processImages cfg fs up c featured base) = Inr r \<Longrightarrow>
   snd (processImages cfg fs up c featured base) = map (\<lambda>p. resolvePath p base) (uploadSet c featured)"
  using uploadEach_log [of cfg fs up base "uploadSet c featured"
      "collectPaths (parseImageReferences c) featured" "[]"]
  by (auto simp: processImages_def uploadSet_def Let_def split: prod.splits sum.splits)

lemma processImages_no_images:
  "parseImageReferences c = [] \<Longrightarrow>
   processImages cfg fs up c None base = (Inr \<lparr>content = c, featuredImageUrl = None\<rparr>, [])"
  by (simp add: processImages_def collectPaths_def addFeaturedImage_def)

subsection \<open>Keys and required fields\<close>

lemma hexDigit_hex: "isHexChar c \<Longrightarrow> \<exists>n. hexDigit c = Some n"
  by (auto simp: isHexChar_def hexDigit_def)

lemma hexToBytes_length:
  "list_all isHexChar s \<Longrightarrow> even (length s) \<Longrightarrow> \<exists>bs. hexToBytes s = Some bs \<and> 2 * length bs = length s"
proof (induction s rule: hexToBytes.induct)
  case 1
  then show ?case by simp
next
  case (2 c)
  then show ?case by simp
next
  case (3 h l t)
  then obtain bs where "hexToBytes t = Some bs" "2 * length bs = length t"
    by auto
  moreover from 3 obtain a b where "hexDigit h = Some a" "hexDigit l = Some b"
    using hexDigit_hex [of h] hexDigit_hex [of l] by auto
  ultimately show ?case by simp
qed

lemma isHex64_not_nsec: "isHex64 t \<Longrightarrow> \<not> startsWith t ''nsec1''"
  by (cases t) (auto simp: isHex64_def startsWith_def isHexChar_def)

lemma isHex64_iff:
  "isHex64 t = (length t = 64 \<and> (\<forall>c\<in>set t. c \<in> set ''0123456789abcdefABCDEF''))"
  unfolding isHex64_def list_all_iff isHexChar_def by simp

subsection \<open>The payload of an update\<close>

text \<open>
  Slug, title, excerpt, author and tags of the payload are those of the command line
  whenever the command line gives them.
\<close>

lemma updatePost_keeps_cli_fields:
  assumes "updatePost w slug options = Inr p"
  shows "(given (o_newSlug options) \<longrightarrow> u_slug p = map_option Str (o_newSlug options)) \<and>
         (given (o_title options) \<longrightarrow> u_title p = map_option Str (o_title options)) \<and>
         (given (o_excerpt options) \<longrightarrow> u_excerpt p = map_option Str (o_excerpt options)) \<and>
         (given (o_author options) \<longrightarrow> u_author p = map_option Str (o_author options)) \<and>
         (given (o_tags options) \<longrightarrow>
            u_tags p = map_option (\<lambda>t. Arr (map trim (splitOn CHR '','' t))) (o_tags options))"
proof (cases "loadDraft w options")
  case (Inl e)
  with assms show ?thesis by (simp add: updatePost_def)
next
  case (Inr d0)
  have "u_slug p = u_slug (payload (applyOptions options d0)) \<and>
      u_title p = u_title (payload (applyOptions options d0)) \<and>
      u_excerpt p = u_excerpt (payload (applyOptions options d0)) \<and>
      u_author p = u_author (payload (applyOptions options d0)) \<and>
      u_tags p = u_tags (payload (applyOptions options d0))"
    using assms Inr unfolding updatePost_def Let_def
    by (auto split: sum.splits if_splits)
  then show ?thesis
    by (cases "o_tags options") (simp_all add: applyOptions_def)
qed

section \<open>The claims\<close>

text \<open>
  C1. In an update, a value given on the command line takes precedence over the value
  of the same field in the file, for every field, content included. This run of
  \<open>updatePost\<close> shows that the content does not follow the rule: the file has the title
  \<open>A\<close> and the body \<open>file body\<close>, the command line has the title \<open>B\<close> and the content
  \<open>cli body\<close>. The payload carries the title of the command line and the body of the
  file: the assignment after \<open>processImages\<close> overwrites the content that the block of
  the command-line options had stored.
\<close>

theorem updatePost_file_body_replaces_cli_content:
  "updatePost (demoWorld titleAndBody) ''my-post'' titleAndContentOptions
     = Inr \<lparr>u_slug = None, u_title = Some (Str ''B''), u_content = Some (Str ''file body''),
            u_excerpt = None, u_featured_image = None, u_author = None, u_tags = None\<rparr>"
proof -
  have pf: "parseFrontmatter titleAndBody =
      (\<lparr>fm_slug = None, fm_title = Some (Str ''A''), fm_author = None,
        fm_excerpt = None, fm_featured_image = None, fm_tags = None\<rparr>, ''file body'')"
    by code_simp
  have refs: "parseImageReferences ''file body'' = []"
    by code_simp
  have base: "getBasePath ''posts/post.md'' = ''posts''"
    by code_simp
  have key: "fst (getSecretKey (keyEnvOf (Some ''ncryptsec1abc'') (Some ''pw'') (Inr [1, 2])) ''key.txt'')
      = Inr [1, 2]"
    by (simp add: getSecretKey_def keyEnvOf_def startsWith_def)
  show ?thesis
    by (simp add: updatePost_def loadDraft_def titleAndContentOptions_def demoWorld_def fromFile_def pf base key
        applyOptions_def emptyPayload_def noKeys_def processImagesOf_def
        processImages_no_images [OF refs] Let_def)
qed

text \<open>
  C2. Let the paths to upload be taken in their order. If the asset at some position
  fails (its file is missing, too large or of a type that is not allowed, or its upload
  fails), \<open>processImages\<close> returns an error and no result; and when no asset before it
  fails, the error is the one of that asset. The content is rewritten only after the
  loop of the uploads has ended without an error.
\<close>

theorem processImages_fails_without_result:
  assumes "j < length (uploadSet c featured)"
    and "assetFails cfg fs up base j (uploadSet c featured ! j)"
  shows "isl (fst (processImages cfg fs up c featured base)) \<and>
         (\<forall>e. (\<forall>i<j. \<not> assetFails cfg fs up base i (uploadSet c featured ! i)) \<and>
               assetOutcome cfg fs up base j (uploadSet c featured ! j) = Inl e \<longrightarrow>
               fst (processImages cfg fs up c featured base) = Inl e)"
proof -
  from assms(1) have ne: "uploadSet c featured \<noteq> []" by auto
  have "isl (fst (uploadEach cfg fs up base (uploadSet c featured)
          (collectPaths (parseImageReferences c) featured) []))"
    using uploadEach_fails [of j "uploadSet c featured" cfg fs up base "[]"] assms by simp
  moreover have "fst (uploadEach cfg fs up base (uploadSet c featured)
          (collectPaths (parseImageReferences c) featured) []) = Inl e"
    if "\<forall>i<j. \<not> assetFails cfg fs up base i (uploadSet c featured ! i)"
      and "assetOutcome cfg fs up base j (uploadSet c featured ! j) = Inl e" for e
    using uploadEach_first [of j "uploadSet c featured" cfg fs up base "[]" e] assms(1) that by simp
  ultimately show ?thesis
    using ne by (simp add: processImages_isl processImages_upload)
qed

theorem processImages_fails_without_result_witness:
  "fst (processImages DEFAULTS demoImages demoUpload ''![a](./x.png) and ![b](./y.png)'' None ''posts'')
     = Inl (ImageValidationError (ImageNotFound ''posts/./y.png''))"
proof -
  let ?c = "''![a](./x.png) and ![b](./y.png)''"
  have us: "uploadSet ?c None = [''./x.png'', ''./y.png'']"
    by code_simp
  have h1: "1 < length (uploadSet ?c None)"
    by (simp add: us)
  have h2: "assetFails DEFAULTS demoImages demoUpload ''posts'' 1 (uploadSet ?c None ! 1)"
    by (simp add: us assetFails_def resolvePath_def startsWith_def demoImages_def)
  have h3: "\<forall>i<1. \<not> assetFails DEFAULTS demoImages demoUpload ''posts'' i (uploadSet ?c None ! i)"
    by (simp add: us assetFails_def resolvePath_def startsWith_def demoImages_def demoUpload_def
        DEFAULTS_def)
  have h4: "assetOutcome DEFAULTS demoImages demoUpload ''posts'' 1 (uploadSet ?c None ! 1)
      = Inl (ImageValidationError (ImageNotFound ''posts/./y.png''))"
    by (simp add: us assetOutcome_def validateImageFile_def resolvePath_def startsWith_def
        demoImages_def)
  from processImages_fails_without_result [OF h1 h2] h3 h4 show ?thesis
    by blast
qed

text \<open>
  C3. A path that the content references several times is uploaded once, and every
  reference to it is rewritten to the uploaded URL. This run of \<open>processImages\<close> shows a
  reference that is not: the alternative text of the image is the path itself, the
  image is uploaded once, and the replacement of the first occurrence of the path in the
  matched text puts the URL into the alternative text and leaves the path in its place.
\<close>

theorem processImages_alt_text_rewritten:
  "processImages DEFAULTS demoImages demoUpload ''![./x.png](./x.png)'' None ''posts''
     = (Inr \<lparr>content = ''![https://cdn/x.png](./x.png)'', featuredImageUrl = None\<rparr>,
        [''posts/./x.png''])"
proof -
  have refs: "parseImageReferences ''![./x.png](./x.png)''
      = [\<lparr>original = ''![./x.png](./x.png)'', path = ''./x.png''\<rparr>]"
    by code_simp
  have paths: "collectPaths [\<lparr>original = ''![./x.png](./x.png)'', path = ''./x.png''\<rparr>] None
      = [(''./x.png'', [])]"
    by (simp add: collectPaths_def addFeaturedImage_def)
  have up: "uploadEach DEFAULTS demoImages demoUpload ''posts'' [''./x.png''] [(''./x.png'', [])] []
      = (Inr [(''./x.png'', ''https://cdn/x.png'')], [''posts/./x.png''])"
    by (simp add: validateImageFile_def resolvePath_def startsWith_def demoImages_def demoUpload_def
        DEFAULTS_def)
  have rw: "replacePaths [(''./x.png'', ''https://cdn/x.png'')]
        [\<lparr>original = ''![./x.png](./x.png)'', path = ''./x.png''\<rparr>] ''![./x.png](./x.png)''
      = ''![https://cdn/x.png](./x.png)''"
    by code_simp
  show ?thesis
    by (simp add: processImages_def refs paths up rw del: uploadEach.simps replacePaths.simps)
qed

text \<open>
  C4, as amended. Let \<open>t\<close> be the input with the white space at both ends removed. If
  \<open>t\<close> is 64 hexadecimal digits, in either case, the result is a key of exactly 32
  bytes. If \<open>t\<close> does not start with \<open>nsec1\<close> and is not 64 hexadecimal digits, the
  result is the error \<open>InvalidSecretKeyError\<close>. If \<open>t\<close> starts with \<open>nsec1\<close>, the
  result is the codec's: the data it returns, as they are, under the tag \<open>nsec\<close>, the
  error \<open>InvalidSecretKeyError\<close> under any other tag, and the exception of the codec,
  as it is, when the codec throws.
\<close>

theorem parseSecretKey_outcomes:
  "(length (trim input) = 64 \<and> (\<forall>c\<in>set (trim input). c \<in> set ''0123456789abcdefABCDEF'') \<longrightarrow>
      (\<exists>bs. parseSecretKey decode input = Inr bs \<and> length bs = 32)) \<and>
   (\<not> prefix ''nsec1'' (trim input) \<and>
    \<not> (length (trim input) = 64 \<and> (\<forall>c\<in>set (trim input). c \<in> set ''0123456789abcdefABCDEF'')) \<longrightarrow>
      parseSecretKey decode input
        = Inl (InvalidSecretKeyError ''Invalid secret key format. Expected nsec or 64-character hex string'')) \<and>
   (prefix ''nsec1'' (trim input) \<longrightarrow>
      parseSecretKey decode input
        = (case decode (trim input) of
             Inl e \<Rightarrow> Inl e
           | Inr (ty, dat) \<Rightarrow>
               if ty = ''nsec'' then Inr dat else Inl (InvalidSecretKeyError ''Invalid nsec format'')))"
proof (intro conjI impI)
  assume "length (trim input) = 64 \<and> (\<forall>c\<in>set (trim input). c \<in> set ''0123456789abcdefABCDEF'')"
  then have hex: "isHex64 (trim input)"
    by (simp add: isHex64_iff)
  then have len: "length (trim input) = 64" and "list_all isHexChar (trim input)"
    by (simp_all add: isHex64_def)
  then obtain bs where bs: "hexToBytes (trim input) = Some bs" "2 * length bs = length (trim input)"
    using hexToBytes_length [of "trim input"] by auto
  from bs(2) len have "length bs = 32"
    by simp
  with hex bs(1) show "\<exists>bs. parseSecretKey decode input = Inr bs \<and> length bs = 32"
    by (simp add: parseSecretKey_def Let_def isHex64_not_nsec)
next
  assume "\<not> prefix ''nsec1'' (trim input) \<and>
    \<not> (length (trim input) = 64 \<and> (\<forall>c\<in>set (trim input). c \<in> set ''0123456789abcdefABCDEF''))"
  then have "\<not> startsWith (trim input) ''nsec1''" "\<not> isHex64 (trim input)"
    by (simp_all add: isHex64_iff startsWith_prefix)
  then show "parseSecretKey decode input
        = Inl (InvalidSecretKeyError ''Invalid secret key format. Expected nsec or 64-character hex string'')"
    by (simp add: parseSecretKey_def Let_def)
next
  assume "prefix ''nsec1'' (trim input)"
  then have "startsWith (trim input) ''nsec1''"
    by (simp only: startsWith_prefix)
  then show "parseSecretKey decode input
        = (case decode (trim input) of
             Inl e \<Rightarrow> Inl e
           | Inr (ty, dat) \<Rightarrow>
               if ty = ''nsec'' then Inr dat else Inl (InvalidSecretKeyError ''Invalid nsec format''))"
    by (auto simp: parseSecretKey_def Let_def split: sum.splits)
qed

theorem parseSecretKey_outcomes_witness:
  "(\<exists>bs. parseSecretKey demoCodec ''  0123456789abcdef0123456789ABCDEF0123456789abcdef0123456789abcdef  ''
           = Inr bs \<and> length bs = 32) \<and>
   parseSecretKey demoCodec ''not a valid key at all''
     = Inl (InvalidSecretKeyError ''Invalid secret key format. Expected nsec or 64-character hex string'') \<and>
   parseSecretKey demoCodec ''nsec1vl029mgpspedva04g90vltkh6fvh240zqtv9k0t9af8935ke9laqsnlfe5''
     = Inr [0x67, 0xde, 0xa2, 0xed, 0x01, 0x80, 0x72, 0xd6, 0x75, 0xf5, 0x41, 0x5e, 0xcf, 0xae, 0xd7, 0xd2,
            0x59, 0x75, 0x55, 0xe2, 0x02, 0xd8, 0x5b, 0x3d, 0x65, 0xea, 0x4e, 0x58, 0xd2, 0xd9, 0x2f, 0xfa]"
proof -
  let ?hex = "''  0123456789abcdef0123456789ABCDEF0123456789abcdef0123456789abcdef  ''"
  let ?nsec = "''nsec1vl029mgpspedva04g90vltkh6fvh240zqtv9k0t9af8935ke9laqsnlfe5''"
  have t1: "trim ?hex = ''0123456789abcdef0123456789ABCDEF0123456789abcdef0123456789abcdef''"
    by code_simp
  have t2: "trim ''not a valid key at all'' = ''not a valid key at all''"
    by code_simp
  have t3: "trim ?nsec = ?nsec"
    by code_simp
  have h1: "length (trim ?hex) = 64 \<and> (\<forall>c\<in>set (trim ?hex). c \<in> set ''0123456789abcdefABCDEF'')"
    by (simp add: t1)
  have h2: "\<not> prefix ''nsec1'' (trim ''not a valid key at all'') \<and>
      \<not> (length (trim ''not a valid key at all'') = 64 \<and>
         (\<forall>c\<in>set (trim ''not a valid key at all''). c \<in> set ''0123456789abcdefABCDEF''))"
    by (simp add: t2)
  have h3: "prefix ''nsec1'' (trim ?nsec)"
    by (simp add: t3)
  have d3: "demoCodec (trim ?nsec)
      = Inr (''nsec'',
          [0x67, 0xde, 0xa2, 0xed, 0x01, 0x80, 0x72, 0xd6, 0x75, 0xf5, 0x41, 0x5e, 0xcf, 0xae, 0xd7, 0xd2,
           0x59, 0x75, 0x55, 0xe2, 0x02, 0xd8, 0x5b, 0x3d, 0x65, 0xea, 0x4e, 0x58, 0xd2, 0xd9, 0x2f, 0xfa])"
    by (simp add: t3 demoCodec_def)
  from parseSecretKey_outcomes [of ?hex demoCodec] h1
  have "\<exists>bs. parseSecretKey demoCodec ?hex = Inr bs \<and> length bs = 32"
    by blast
  moreover from parseSecretKey_outcomes [of "''not a valid key at all''" demoCodec] h2
  have "parseSecretKey demoCodec ''not a valid key at all''
     = Inl (InvalidSecretKeyError ''Invalid secret key format. Expected nsec or 64-character hex string'')"
    by blast
  moreover from parseSecretKey_outcomes [of ?nsec demoCodec] h3
  have "parseSecretKey demoCodec ?nsec
      = (case demoCodec (trim ?nsec) of
           Inl e \<Rightarrow> Inl e
         | Inr (ty, dat) \<Rightarrow>
             if ty = ''nsec'' then Inr dat else Inl (InvalidSecretKeyError ''Invalid nsec format''))"
    by blast
  ultimately show ?thesis
    by (simp add: d3)
qed

text \<open>
  The claim C4 as it was stated fails where the codec throws: \<open>nsec1invalid\<close> has the
  wrong length and a letter that is not in the alphabet of the encoding, and the result
  is the exception of the codec, not \<open>InvalidSecretKeyError\<close>.
\<close>

theorem parseSecretKey_codec_exception_counterexample:
  "parseSecretKey demoCodec ''nsec1invalid'' = Inl (Error ''Unknown letter'')"
  by code_simp

text \<open>
  C5. Opening the key file fails with \<open>KeyfileNotFoundError\<close> when there is no file at
  the path; with \<open>InvalidKeyfileError\<close> when the text of the file does not start with
  \<open>ncryptsec1\<close>, and then the file has been read but neither the prompt nor the
  decryption has been called; with \<open>DecryptionError\<close> when the decryption with the
  password that was typed throws; and with \<open>AbortedError\<close>, not \<open>DecryptionError\<close>, when
  the prompt returns no password, again before any decryption.
\<close>

theorem getSecretKey_failures:
  "(keyfiles env p = None \<longrightarrow> fst (getSecretKey env p) = Inl (KeyfileNotFoundError p)) \<and>
   (\<forall>t. keyfiles env p = Some t \<and> \<not> prefix ''ncryptsec1'' t \<longrightarrow>
        getSecretKey env p = (Inl InvalidKeyfileError, [ReadKeyfile p])) \<and>
   (\<forall>t pw e. keyfiles env p = Some t \<and> prefix ''ncryptsec1'' t \<and> promptPassword env = Some pw \<and>
        pw \<noteq> [] \<and> decrypt env (trim t) pw = Inl e \<longrightarrow>
        fst (getSecretKey env p) = Inl DecryptionError) \<and>
   (\<forall>t. keyfiles env p = Some t \<and> prefix ''ncryptsec1'' t \<and> promptPassword env = None \<longrightarrow>
        getSecretKey env p = (Inl AbortedError, [ReadKeyfile p, AskPassword]))"
  by (simp add: getSecretKey_def startsWith_prefix)

theorem getSecretKey_failures_witness:
  "fst (getSecretKey (keyEnvOf None None (Inl (Error ''mac''))) ''key.txt'')
     = Inl (KeyfileNotFoundError ''key.txt'') \<and>
   getSecretKey (keyEnvOf (Some ''nsec1abc'') (Some ''pw'') (Inr [1, 2])) ''key.txt''
     = (Inl InvalidKeyfileError, [ReadKeyfile ''key.txt'']) \<and>
   fst (getSecretKey (keyEnvOf (Some ''ncryptsec1abc'') (Some ''pw'') (Inl (Error ''mac''))) ''key.txt'')
     = Inl DecryptionError \<and>
   getSecretKey (keyEnvOf (Some ''ncryptsec1abc'') None (Inl (Error ''mac''))) ''key.txt''
     = (Inl AbortedError, [ReadKeyfile ''key.txt'', AskPassword])"
  using getSecretKey_failures [of "keyEnvOf None None (Inl (Error ''mac''))" "''key.txt''"]
    getSecretKey_failures [of "keyEnvOf (Some ''nsec1abc'') (Some ''pw'') (Inr [1, 2])" "''key.txt''"]
    getSecretKey_failures [of "keyEnvOf (Some ''ncryptsec1abc'') (Some ''pw'') (Inl (Error ''mac''))" "''key.txt''"]
    getSecretKey_failures [of "keyEnvOf (Some ''ncryptsec1abc'') None (Inl (Error ''mac''))" "''key.txt''"]
  by (simp add: keyEnvOf_def)




text \<open>
  C7. \<open>createPost\<close> fails with a \<open>ValidationError\<close> that names every one of \<open>slug\<close>,
  \<open>title\<close> and \<open>author\<close> that is missing, and passes the check exactly when all three
  are present and non-empty. This run of \<open>createPost\<close> shows a file that passes with an
  empty author: the line \<open>author: []\<close> makes the parser store the empty list, the test
  \<^verbatim>\<open>!frontmatter.author\<close> is false for a list, and the payload goes out with the empty
  list as its author.
\<close>

theorem createPost_empty_list_passes_validation:
  "createPost (demoWorld emptyAuthor) ''posts/post.md'' ''key.txt''
     = Inr \<lparr>pp_slug = Some (Str ''hello''), pp_title = Some (Str ''Hello''), pp_content = ''Body text'',
            pp_author = Some (Arr []), pp_excerpt = None, pp_featured_image = None, pp_tags = None\<rparr>"
proof -
  have pf: "parseFrontmatter emptyAuthor =
      (\<lparr>fm_slug = Some (Str ''hello''), fm_title = Some (Str ''Hello''), fm_author = Some (Arr []),
        fm_excerpt = None, fm_featured_image = None, fm_tags = None\<rparr>, ''Body text'')"
    by code_simp
  have refs: "parseImageReferences ''Body text'' = []"
    by code_simp
  have key: "fst (getSecretKey (keyEnvOf (Some ''ncryptsec1abc'') (Some ''pw'') (Inr [1, 2])) ''key.txt'')
      = Inr [1, 2]"
    by (simp add: getSecretKey_def keyEnvOf_def startsWith_def)
  show ?thesis
    by (simp add: createPost_def createPostValidated_def demoWorld_def pf key missingFields_def
        processImagesOf_def processImages_no_images [OF refs] Let_def)
qed

text \<open>
  C8. An input whose delimiter block is there but empty gives the empty front matter
  and the whole input, delimiters included, as the content. This run of
  \<open>parseFrontmatter\<close> shows an input with an empty block for which it does not: a later
  line \<open>---\<close>, a thematic break of markdown, is taken for the closing line, the text
  \<open>Intro\<close> before it for the block, and only the text after it is returned as the content.
\<close>

theorem parseFrontmatter_empty_block_drops_text:
  "parseFrontmatter (''---'' @ nl @ ''---'' @ nl @ ''Intro'' @ nl @ ''---'' @ nl @ ''More'')
     = (emptyFrontmatter, ''More'') \<and>
   parseFrontmatter (''---'' @ nl @ ''---'' @ nl @ ''Intro'' @ nl @ ''---'' @ nl @ ''More'')
     \<noteq> (emptyFrontmatter, ''---'' @ nl @ ''---'' @ nl @ ''Intro'' @ nl @ ''---'' @ nl @ ''More'')"
  by code_simp

text \<open>
  C9. When the key file is there and starts with \<open>ncryptsec1\<close> and the prompt returns
  the empty string, opening fails with \<open>AbortedError\<close>, with the same result and the
  same calls as after a cancelled prompt, and the decryption is not called.
\<close>

theorem getSecretKey_empty_password_aborts:
  "keyfiles env p = Some t \<Longrightarrow> prefix ''ncryptsec1'' t \<Longrightarrow> promptPassword env = Some [] \<Longrightarrow>
   getSecretKey env p = (Inl AbortedError, [ReadKeyfile p, AskPassword]) \<and>
   getSecretKey env p = getSecretKey (env\<lparr>promptPassword := None\<rparr>) p \<and>
   \<not> hasDecrypt (snd (getSecretKey env p))"
  by (simp add: getSecretKey_def startsWith_prefix hasDecrypt_def)

theorem getSecretKey_empty_password_aborts_witness:
  "getSecretKey (keyEnvOf (Some ''ncryptsec1abc'') (Some []) (Inr [1, 2])) ''key.txt''
     = (Inl AbortedError, [ReadKeyfile ''key.txt'', AskPassword]) \<and>
   \<not> hasDecrypt (snd (getSecretKey (keyEnvOf (Some ''ncryptsec1abc'') (Some []) (Inr [1, 2])) ''key.txt''))"
  using getSecretKey_empty_password_aborts
    [of "keyEnvOf (Some ''ncryptsec1abc'') (Some []) (Inr [1, 2])" "''key.txt''" "''ncryptsec1abc''"]
  by (simp add: keyEnvOf_def hasDecrypt_def)

text \<open>
  C10. A string is local exactly when it starts with neither \<open>http://\<close> nor
  \<open>https://\<close>, in lower case. So \<open>ftp://host/x\<close> and \<open>HTTP://host/x\<close> are local; and
  since the paths to upload are the paths of the references found in the content
  together with the featured image when it is local, both are among them when the
  content references them.
\<close>

theorem isLocalPath_only_lowercase_http:
  "isLocalPath s = (\<not> prefix ''http://'' s \<and> \<not> prefix ''https://'' s) \<and>
   isLocalPath ''ftp://host/x'' \<and> isLocalPath ''HTTP://host/x'' \<and>
   set (uploadSet c featured) =
     path ` set (parseImageReferences c) \<union>
     (case featured of None \<Rightarrow> {} | Some f \<Rightarrow> if f \<noteq> [] \<and> isLocalPath f then {f} else {}) \<and>
   uploadSet ''![a](ftp://host/x) and ![b](HTTP://host/x)'' None = [''ftp://host/x'', ''HTTP://host/x'']"
proof -
  have "isLocalPath ''ftp://host/x''" "isLocalPath ''HTTP://host/x''"
    by (simp_all add: isLocalPath_def startsWith_def)
  moreover have "uploadSet ''![a](ftp://host/x) and ![b](HTTP://host/x)'' None
      = [''ftp://host/x'', ''HTTP://host/x'']"
    by code_simp
  ultimately show ?thesis
    using isLocalPath_prefix [of s] uploadSet_set [of c featured] by simp
qed

end
